theory Spec2Isabelle
  imports Main
begin

section \<open>Strings and characters\<close>

text \<open>
  A JavaScript string is a sequence of UTF-16 code units. Every character the calculator
  handles lies below U+0100, so a string is modelled as a \<open>char list\<close> whose characters
  are the code units themselves: the multiplication sign U+00D7 and the division sign
  U+00F7 are the single characters \<open>0xD7\<close> and \<open>0xF7\<close>.
\<close>

definition timesSign :: char where
  "timesSign = CHR 0xD7"

definition divideSign :: char where
  "divideSign = CHR 0xF7"

text \<open>The class \<open>\d\<close> of a regular expression.\<close>

definition isDigit :: "char \<Rightarrow> bool" where
  "isDigit c = (c \<in> set ''0123456789'')"

text \<open>The class \<open>\s\<close>, restricted to code units below U+0100: TAB, LF, VT, FF, CR, space, NBSP.\<close>

definition isSpace :: "char \<Rightarrow> bool" where
  "isSpace c = (c \<in> set [CHR 0x09, CHR 0x0A, CHR 0x0B, CHR 0x0C, CHR 0x0D, CHR '' '', CHR 0xA0])"

text \<open>\<open>s.slice(-1)\<close>: the last character as a string, the empty string when \<open>s\<close> is empty.\<close>

definition sliceLast :: "string \<Rightarrow> string" where
  "sliceLast s = (if s = [] then [] else [last s])"

text \<open>\<open>s.slice(0, -1)\<close>: everything but the last character.\<close>

definition sliceInit :: "string \<Rightarrow> string" where
  "sliceInit s = butlast s"

text \<open>\<open>s.replace(a, b)\<close> for one-character strings \<open>a\<close>, \<open>b\<close>: the first occurrence only.\<close>

fun replaceFirst :: "char \<Rightarrow> char \<Rightarrow> string \<Rightarrow> string" where
  "replaceFirst a b [] = []"
| "replaceFirst a b (c # cs) = (if c = a then b # cs else c # replaceFirst a b cs)"

text \<open>\<open>s.replace(/a/g, b)\<close>: every occurrence.\<close>

definition replaceAll :: "char \<Rightarrow> char \<Rightarrow> string \<Rightarrow> string" where
  "replaceAll a b s = map (\<lambda>c. if c = a then b else c) s"

text \<open>The comparison \<open>s <= t\<close> of two strings: lexicographic on code units.\<close>

fun strLe :: "string \<Rightarrow> string \<Rightarrow> bool" where
  "strLe [] t = True"
| "strLe (a # s) [] = False"
| "strLe (a # s) (b # t) =
     (if (of_char a :: nat) < of_char b then True
      else if a = b then strLe s t else False)"

text \<open>The number of occurrences of a character: \<open>(s.match(/c/g) || []).length\<close>.\<close>

definition countChar :: "char \<Rightarrow> string \<Rightarrow> nat" where
  "countChar c s = length (filter (\<lambda>x. x = c) s)"


section \<open>The host's Number type\<close>

text \<open>
  The calculator hands the validated expression to the host (\<open>Function(...)()\<close>) and
  stringifies the result with \<open>Number.prototype.toString\<close>. Neither is code of the
  repository; both are modelled after ECMAScript. A Number is an IEEE 754 binary64 value:
  NaN, an infinity with its sign, or a finite value \<open>Finite s m e\<close> of magnitude
  \<open>m * 2^e\<close> with \<open>m \<ge> 0\<close>. The flag \<open>s\<close> is \<open>True\<close> for a negative sign. Values are kept
  in lowest terms: \<open>m\<close> is odd, or \<open>m = 0\<close> and \<open>e = 0\<close> (the two zeros).
\<close>

datatype jsnum = NaN | Infinity bool | Finite bool int int

text \<open>The number of binary digits of a positive integer.\<close>

function bitlen :: "int \<Rightarrow> int" where
  "bitlen n = (if n \<le> 0 then 0 else 1 + bitlen (n div 2))"
  by pat_completeness auto

termination
  by (relation "measure nat") auto

declare bitlen.simps [simp del]

text \<open>\<open>n * 2^k\<close> for \<open>k \<ge> 0\<close>; \<open>n\<close> itself for a negative \<open>k\<close>.\<close>

definition shiftLeft :: "int \<Rightarrow> int \<Rightarrow> int" where
  "shiftLeft n k = n * 2 ^ nat k"

text \<open>For \<open>n, d > 0\<close>, the exponent \<open>e\<close> with \<open>2^e \<le> n / d < 2^(e+1)\<close>.\<close>

definition floorLog2 :: "int \<Rightarrow> int \<Rightarrow> int" where
  "floorLog2 n d =
     (let e0 = bitlen n - bitlen d
      in if shiftLeft n (- e0) < shiftLeft d e0 then e0 - 1 else e0)"

text \<open>The fraction \<open>n / d\<close> rounded to an integer, to nearest, ties to even.\<close>

definition roundHalfEven :: "int \<Rightarrow> int \<Rightarrow> int" where
  "roundHalfEven n d =
     (let fl = n div d; r = n mod d
      in if 2 * r < d then fl
         else if d < 2 * r then fl + 1
         else if even fl then fl else fl + 1)"

text \<open>Lowest terms: trailing zero bits of the mantissa move into the exponent.\<close>

function trimZeros :: "int \<Rightarrow> int \<Rightarrow> int \<times> int" where
  "trimZeros m e = (if 0 < m \<and> even m then trimZeros (m div 2) (e + 1) else (m, e))"
  by pat_completeness auto

termination
  by (relation "measure (\<lambda>(m, e). nat m)") auto

declare trimZeros.simps [simp del]

text \<open>
  Rounding of the exact magnitude \<open>n / d * 2^x\<close> (with \<open>n \<ge> 0\<close>, \<open>d > 0\<close>) to binary64, to
  nearest, ties to even. The result has at most 53 significant bits; \<open>qe\<close> is the exponent
  of its unit in the last place, at least \<open>-1074\<close> (subnormals). A rounded magnitude of
  \<open>2^1024\<close> or more overflows to infinity.
\<close>

definition fround :: "bool \<Rightarrow> int \<Rightarrow> int \<Rightarrow> int \<Rightarrow> jsnum" where
  "fround s n d x =
     (if n = 0 then Finite s 0 0
      else
        let qe = max (floorLog2 n d + x - 52) (- 1074);
            m = roundHalfEven (shiftLeft n (x - qe)) (shiftLeft d (qe - x))
        in if m = 0 then Finite s 0 0
           else if 1024 < bitlen m + qe then Infinity s
           else case trimZeros m qe of (m', e') \<Rightarrow> Finite s m' e')"

text \<open>The integer \<open>m * 2^(e - c)\<close> with its sign, for a common exponent \<open>c \<le> e\<close>.\<close>

definition aligned :: "bool \<Rightarrow> int \<Rightarrow> int \<Rightarrow> int \<Rightarrow> int" where
  "aligned s m e c = (if s then - shiftLeft m (e - c) else shiftLeft m (e - c))"

text \<open>Unary minus.\<close>

fun jsNeg :: "jsnum \<Rightarrow> jsnum" where
  "jsNeg NaN = NaN"
| "jsNeg (Infinity s) = Infinity (\<not> s)"
| "jsNeg (Finite s m e) = Finite (\<not> s) m e"

text \<open>\<open>x * y\<close>: an infinity times a zero is NaN.\<close>

fun jsMul :: "jsnum \<Rightarrow> jsnum \<Rightarrow> jsnum" where
  "jsMul (Finite s m e) (Finite t k f) = fround (s \<noteq> t) (m * k) 1 (e + f)"
| "jsMul (Infinity s) (Infinity t) = Infinity (s \<noteq> t)"
| "jsMul (Infinity s) (Finite t k f) = (if k = 0 then NaN else Infinity (s \<noteq> t))"
| "jsMul (Finite s m e) (Infinity t) = (if m = 0 then NaN else Infinity (s \<noteq> t))"
| "jsMul _ _ = NaN"

text \<open>\<open>x / y\<close>: a nonzero value over a zero is an infinity, \<open>0 / 0\<close> is NaN.\<close>

fun jsDiv :: "jsnum \<Rightarrow> jsnum \<Rightarrow> jsnum" where
  "jsDiv (Finite s m e) (Finite t k f) =
     (if k = 0 then (if m = 0 then NaN else Infinity (s \<noteq> t))
      else fround (s \<noteq> t) m k (e - f))"
| "jsDiv (Infinity s) (Finite t k f) = Infinity (s \<noteq> t)"
| "jsDiv (Finite s m e) (Infinity t) = Finite (s \<noteq> t) 0 0"
| "jsDiv _ _ = NaN"

text \<open>
  \<open>x + y\<close>: an exact sum of zero is \<open>-0\<close> only when both operands are negative (that is,
  both are \<open>-0\<close>), otherwise \<open>+0\<close>.
\<close>

fun jsAdd :: "jsnum \<Rightarrow> jsnum \<Rightarrow> jsnum" where
  "jsAdd (Finite s m e) (Finite t k f) =
     (let c = min e f;
          x = aligned s m e c + aligned t k f c
      in if x = 0 then Finite (s \<and> t) 0 0 else fround (x < 0) \<bar>x\<bar> 1 c)"
| "jsAdd (Infinity s) (Infinity t) = (if s = t then Infinity s else NaN)"
| "jsAdd (Infinity s) (Finite t k f) = Infinity s"
| "jsAdd (Finite s m e) (Infinity t) = Infinity t"
| "jsAdd _ _ = NaN"

definition jsSub :: "jsnum \<Rightarrow> jsnum \<Rightarrow> jsnum" where
  "jsSub x y = jsAdd x (jsNeg y)"

text \<open>\<open>x < y\<close> on Numbers: false whenever an operand is NaN.\<close>

fun jsLess :: "jsnum \<Rightarrow> jsnum \<Rightarrow> bool" where
  "jsLess (Finite s m e) (Finite t k f) =
     (let c = min e f in aligned s m e c < aligned t k f c)"
| "jsLess (Finite s m e) (Infinity t) = (\<not> t)"
| "jsLess (Infinity s) (Finite t k f) = s"
| "jsLess (Infinity s) (Infinity t) = (s \<and> \<not> t)"
| "jsLess _ _ = False"

text \<open>\<open>Math.abs\<close>.\<close>

fun mathAbs :: "jsnum \<Rightarrow> jsnum" where
  "mathAbs NaN = NaN"
| "mathAbs (Infinity s) = Infinity False"
| "mathAbs (Finite s m e) = Finite False m e"

text \<open>The global \<open>isFinite\<close> on a Number.\<close>

fun isFinite :: "jsnum \<Rightarrow> bool" where
  "isFinite (Finite s m e) = True"
| "isFinite _ = False"


section \<open>Number to string\<close>

text \<open>The decimal digits of a natural number, most significant first.\<close>

function digitChars :: "int \<Rightarrow> string" where
  "digitChars n =
     (if n < 10 then [''0123456789'' ! nat n]
      else digitChars (n div 10) @ [''0123456789'' ! nat (n mod 10)])"
  by pat_completeness auto

termination
  by (relation "measure nat") auto

declare digitChars.simps [simp del]

text \<open>\<open>n * 10^k\<close> for \<open>k \<ge> 0\<close>; \<open>n\<close> itself for a negative \<open>k\<close>.\<close>

definition scale10 :: "int \<Rightarrow> int \<Rightarrow> int" where
  "scale10 n k = n * 10 ^ nat k"

text \<open>For \<open>a, b > 0\<close>, the \<open>n\<close> with \<open>10^(n-1) \<le> a / b < 10^n\<close>.\<close>

definition decExponent :: "int \<Rightarrow> int \<Rightarrow> int" where
  "decExponent a b =
     (let e0 = int (length (digitChars a)) - int (length (digitChars b))
      in if scale10 a (- e0) < scale10 b e0 then e0 else e0 + 1)"

text \<open>The Number denoted by the decimal \<open>c * 10^p\<close>.\<close>

definition decimalValue :: "int \<Rightarrow> int \<Rightarrow> jsnum" where
  "decimalValue c p = fround False (scale10 c p) (scale10 1 (- p)) 0"

text \<open>
  \<open>Number::toString\<close>, step 5: integers \<open>n\<close>, \<open>k\<close>, \<open>s\<close> with \<open>10^(k-1) \<le> s < 10^k\<close>
  such that \<open>s * 10^(n-k)\<close> denotes the Number \<open>x\<close>, with \<open>k\<close> as small as possible and,
  among several \<open>s\<close>, the one nearest to \<open>x\<close>. Here \<open>x = a / b\<close>. For a given \<open>k\<close> only
  the two \<open>k\<close>-digit decimals around \<open>x\<close> can qualify; the upper one may be the power of
  ten \<open>10^n\<close> itself, which is the digit \<open>1\<close> with exponent \<open>n + 1\<close>.
\<close>

definition candidate :: "jsnum \<Rightarrow> int \<Rightarrow> int \<Rightarrow> int \<Rightarrow> int \<Rightarrow> (int \<times> int) option" where
  "candidate x a b n k =
     (let p = n - k;
          num = scale10 a (- p);
          den = scale10 b p;
          lo = num div den;
          hi = lo + 1;
          r = num mod den;
          okLo = (decimalValue lo p = x);
          okHi = (decimalValue hi p = x);
          pickLo = (lo, n);
          pickHi = (if hi = 10 ^ nat k then (10 ^ nat (k - 1), n + 1) else (hi, n))
      in if okLo \<and> okHi then
           (if 2 * r < den then Some pickLo
            else if den < 2 * r then Some pickHi
            else if even lo then Some pickLo else Some pickHi)
         else if okLo then Some pickLo
         else if okHi then Some pickHi
         else None)"

text \<open>
  The search over \<open>k\<close>. Seventeen significant digits identify every binary64 value, so
  the last equation is never reached from \<open>[1..17]\<close>; it keeps the function total.
\<close>

fun shortest :: "jsnum \<Rightarrow> int \<Rightarrow> int \<Rightarrow> int \<Rightarrow> int list \<Rightarrow> int \<times> int" where
  "shortest x a b n [] = (scale10 a (17 - n) div scale10 b (n - 17), n)"
| "shortest x a b n (k # ks) =
     (case candidate x a b n k of Some r \<Rightarrow> r | None \<Rightarrow> shortest x a b n ks)"

text \<open>\<open>Number::toString\<close>, steps 6 to 10: the layout of the digits \<open>ds\<close> for exponent \<open>n\<close>.\<close>

definition formatDigits :: "string \<Rightarrow> int \<Rightarrow> string" where
  "formatDigits ds n =
     (let k = int (length ds)
      in if k \<le> n \<and> n \<le> 21 then ds @ replicate (nat (n - k)) (CHR ''0'')
         else if 0 < n \<and> n \<le> 21 then take (nat n) ds @ ''.'' @ drop (nat n) ds
         else if - 6 < n \<and> n \<le> 0 then ''0.'' @ replicate (nat (- n)) (CHR ''0'') @ ds
         else
           let e = n - 1;
               es = (if e < 0 then CHR ''-'' else CHR ''+'') # digitChars \<bar>e\<bar>
           in if k = 1 then ds @ ''e'' @ es
              else take 1 ds @ ''.'' @ drop 1 ds @ ''e'' @ es)"

text \<open>\<open>Number.prototype.toString()\<close> (radix 10).\<close>

fun toString :: "jsnum \<Rightarrow> string" where
  "toString NaN = ''NaN''"
| "toString (Infinity s) = (if s then ''-Infinity'' else ''Infinity'')"
| "toString (Finite s m e) =
     (if m = 0 then ''0''
      else
        (if s then ''-'' else []) @
        (let a = shiftLeft m e;
             b = shiftLeft 1 (- e)
         in case shortest (Finite False m e) a b (decExponent a b) [1..17] of
              (digits, n) \<Rightarrow> formatDigits (digitChars digits) n))"


section \<open>Expression validation\<close>

text \<open>The character class \<open>[0-9+\-*/().\s]\<close>.\<close>

definition isExpressionChar :: "char \<Rightarrow> bool" where
  "isExpressionChar c = (isDigit c \<or> c \<in> set ''+-*/().'' \<or> isSpace c)"

text \<open>A match of \<open>/[...]{2,}/\<close>: two adjacent characters of the class \<open>P\<close>.\<close>

fun hasRun2 :: "(char \<Rightarrow> bool) \<Rightarrow> string \<Rightarrow> bool" where
  "hasRun2 P (a # b # cs) = (if P a \<and> P b then True else hasRun2 P (b # cs))"
| "hasRun2 P cs = False"

text \<open>A match of \<open>/\d*\./\<close> at the start of the string.\<close>

fun digitsThenDot :: "string \<Rightarrow> bool" where
  "digitsThenDot [] = False"
| "digitsThenDot (c # cs) =
     (if c = CHR ''.'' then True else if isDigit c then digitsThenDot cs else False)"

text \<open>A match of \<open>/\d+\.\d*\./\<close> anywhere: a digit, a point, digits, a second point.\<close>

fun hasTwoPoints :: "string \<Rightarrow> bool" where
  "hasTwoPoints (a # b # cs) =
     (if isDigit a \<and> b = CHR ''.'' \<and> digitsThenDot cs then True else hasTwoPoints (b # cs))"
| "hasTwoPoints cs = False"

text \<open>\<open>isOperator(char)\<close>, on a string of length zero or one.\<close>

definition isOperator :: "string \<Rightarrow> bool" where
  "isOperator ch = (ch \<in> set [''+'', ''-'', ''*'', ''/'', [timesSign], [divideSign]])"

text \<open>
  The loop of \<open>validateParentheses\<close>, with its variables \<open>parenCount\<close> and \<open>lastChar\<close>. The
  body of the test after \<open>parenCount++\<close> is empty in the source.
\<close>

fun validateParenthesesLoop :: "int \<Rightarrow> string \<Rightarrow> string \<Rightarrow> bool" where
  "validateParenthesesLoop parenCount lastChar [] = (parenCount = 0)"
| "validateParenthesesLoop parenCount lastChar (c # cs) =
     (let opened = (if c = CHR ''('' then parenCount + 1 else parenCount)
      in if c = CHR '')'' then
           (if opened - 1 < 0 then False
            else if lastChar = ''('' then False
            else validateParenthesesLoop (opened - 1) [c] cs)
         else validateParenthesesLoop opened [c] cs)"

definition validateParentheses :: "string \<Rightarrow> bool" where
  "validateParentheses expression = validateParenthesesLoop 0 [] expression"

definition isValidExpression :: "string \<Rightarrow> bool" where
  "isValidExpression expression =
     (if expression = [] then False
      else if \<not> list_all isExpressionChar expression then False
      else if hasRun2 (\<lambda>c. c \<in> set ''+*/'') expression then False
      else if hasRun2 (\<lambda>c. c = CHR ''-'') expression then False
      else if hd expression \<in> set ''+*/'' then False
      else if last expression \<in> set ''+-*/'' then False
      else if \<not> validateParentheses expression then False
      else if hasRun2 (\<lambda>c. c = CHR ''.'') expression then False
      else if hasTwoPoints expression then False
      else True)"

section \<open>The host's evaluation of an expression\<close>

text \<open>
  \<open>Function('"use strict"; return (' + expression + ')')()\<close> parses and evaluates the text
  as strict-mode ECMAScript. The model covers the texts that pass \<open>isValidExpression\<close>,
  the only ones the calculator hands over: texts over digits and \<open>+ - * / ( ) .\<close> in
  which no two of \<open>+ * /\<close> and no two \<open>-\<close> are adjacent, so that the tokens \<open>++\<close>,
  \<open>--\<close>, \<open>**\<close> and comments do not occur. The result \<open>None\<close> stands
  for every outcome that is not a Number: a SyntaxError or TypeError thrown, or a value
  of another type. The latter arises only from a \<open>/\<close> where an operand is expected, which
  the host reads as the start of a regular-expression literal; whatever is then computed
  from that object is NaN, a string containing \<open>/\<close>, or the object itself, never a
  finite Number, and \<open>safeEvaluate\<close> answers \<open>"Error"\<close> to all of them.
\<close>

datatype token = TNum jsnum | TOp char | TLParen | TRParen

text \<open>The value of a run of decimal digits.\<close>

definition digitsValue :: "string \<Rightarrow> int" where
  "digitsValue ds = foldl (\<lambda>acc c. 10 * acc + (of_char c - 48)) 0 ds"

text \<open>
  The Number denoted by the decimal literal with integer digits \<open>ip\<close> and fraction digits
  \<open>fp\<close>: its mathematical value, rounded.
\<close>

definition literalValue :: "string \<Rightarrow> string \<Rightarrow> jsnum" where
  "literalValue ip fp = fround False (digitsValue (ip @ fp)) (10 ^ length fp) 0"

text \<open>
  Numeric literals are read greedily: digits, then optionally a point and more digits; or
  a point followed by at least one digit. An integer part of several digits that starts
  with \<open>0\<close> is a legacy octal or octal-like literal, a SyntaxError in strict mode. A point
  that starts no literal would be a property access, which needs a name: SyntaxError.
\<close>

function lex :: "string \<Rightarrow> token list option" where
  "lex [] = Some []"
| "lex (c # cs) =
     (if isDigit c then
        (let ip = c # takeWhile isDigit cs;
             rest = dropWhile isDigit cs
         in if c = CHR ''0'' \<and> 1 < length ip then None
            else if rest \<noteq> [] \<and> hd rest = CHR ''.'' then
              map_option (Cons (TNum (literalValue ip (takeWhile isDigit (tl rest)))))
                (lex (dropWhile isDigit (tl rest)))
            else map_option (Cons (TNum (literalValue ip []))) (lex rest))
      else if c = CHR ''.'' then
        (if cs \<noteq> [] \<and> isDigit (hd cs) then
           map_option (Cons (TNum (literalValue [] (takeWhile isDigit cs))))
             (lex (dropWhile isDigit cs))
         else None)
      else if c = CHR ''('' then map_option (Cons TLParen) (lex cs)
      else if c = CHR '')'' then map_option (Cons TRParen) (lex cs)
      else if c \<in> set ''+-*/'' then map_option (Cons (TOp c)) (lex cs)
      else None)"
  by pat_completeness auto

termination
proof (relation "measure length")
  fix c :: char and cs x xa :: string
  assume "xa = dropWhile isDigit cs"
  have le: "\<And>ys :: string. length (dropWhile isDigit ys) \<le> length ys"
    by (rule length_dropWhile_le)
  have tl_le: "\<And>ys :: string. length (tl ys) \<le> length ys"
    by simp
  show "(dropWhile isDigit (tl xa), c # cs) \<in> measure length"
    using le [of "tl xa"] tl_le [of xa] le [of cs] \<open>xa = dropWhile isDigit cs\<close> by simp
  show "(xa, c # cs) \<in> measure length"
    using le [of cs] \<open>xa = dropWhile isDigit cs\<close> by simp
qed (simp_all add: le_imp_less_Suc length_dropWhile_le)

declare lex.simps [simp del]

text \<open>
  The grammar is the host's: sums of products of operands, an operand being a literal or
  a parenthesised expression under any number of unary \<open>+\<close> and \<open>-\<close>; binary operators
  associate to the left. A frame holds what has been read of one (parenthesised)
  expression: the sum so far with its pending \<open>+\<close> or \<open>-\<close>, the product so far with its
  pending \<open>*\<close> or \<open>/\<close>, the unary operators waiting for their operand, and the operand
  just completed, if any.
\<close>

record frame =
  sumAcc :: "(jsnum \<times> char) option"
  prodAcc :: "(jsnum \<times> char) option"
  signs :: "char list"
  cur :: "jsnum option"

definition emptyFrame :: frame where
  "emptyFrame = \<lparr>sumAcc = None, prodAcc = None, signs = [], cur = None\<rparr>"

text \<open>Unary \<open>-\<close> negates; unary \<open>+\<close> leaves a Number as it is.\<close>

definition applyUnary :: "char list \<Rightarrow> jsnum \<Rightarrow> jsnum" where
  "applyUnary ops v = foldr (\<lambda>opr x. if opr = CHR ''-'' then jsNeg x else x) ops v"

text \<open>
  An operand arrives. Directly after another operand it is either a SyntaxError (two
  literals side by side) or the argument list of a call of a Number (TypeError).
\<close>

definition feedOperand :: "jsnum \<Rightarrow> frame \<Rightarrow> frame option" where
  "feedOperand v f =
     (case cur f of
        Some u \<Rightarrow> None
      | None \<Rightarrow> Some (f\<lparr>signs := [], cur := Some (applyUnary (signs f) v)\<rparr>))"

definition closeProd :: "frame \<Rightarrow> jsnum \<Rightarrow> jsnum" where
  "closeProd f v =
     (case prodAcc f of
        None \<Rightarrow> v
      | Some (p, opr) \<Rightarrow> if opr = CHR ''*'' then jsMul p v else jsDiv p v)"

definition closeSum :: "frame \<Rightarrow> jsnum \<Rightarrow> jsnum" where
  "closeSum f t =
     (case sumAcc f of
        None \<Rightarrow> t
      | Some (a, opr) \<Rightarrow> if opr = CHR ''+'' then jsAdd a t else jsSub a t)"

text \<open>
  An operator arrives. Where an operand is expected, \<open>+\<close> and \<open>-\<close> are unary, \<open>*\<close> is a
  SyntaxError and \<open>/\<close> starts a regular-expression literal (no Number, see above).
\<close>

definition feedOperator :: "char \<Rightarrow> frame \<Rightarrow> frame option" where
  "feedOperator opr f =
     (case cur f of
        None \<Rightarrow>
          if opr = CHR ''+'' \<or> opr = CHR ''-'' then Some (f\<lparr>signs := signs f @ [opr]\<rparr>) else None
      | Some v \<Rightarrow>
          if opr = CHR ''*'' \<or> opr = CHR ''/'' then
            Some (f\<lparr>prodAcc := Some (closeProd f v, opr), cur := None\<rparr>)
          else
            Some (f\<lparr>sumAcc := Some (closeSum f (closeProd f v), opr), prodAcc := None,
                    cur := None\<rparr>))"

text \<open>The value of a finished expression; it must end in an operand.\<close>

definition finishFrame :: "frame \<Rightarrow> jsnum option" where
  "finishFrame f =
     (case cur f of None \<Rightarrow> None | Some v \<Rightarrow> Some (closeSum f (closeProd f v)))"

fun evalTokens :: "token list \<Rightarrow> frame \<Rightarrow> frame list \<Rightarrow> jsnum option" where
  "evalTokens [] f stack = (if stack = [] then finishFrame f else None)"
| "evalTokens (TNum v # ts) f stack =
     (case feedOperand v f of None \<Rightarrow> None | Some f' \<Rightarrow> evalTokens ts f' stack)"
| "evalTokens (TOp opr # ts) f stack =
     (case feedOperator opr f of None \<Rightarrow> None | Some f' \<Rightarrow> evalTokens ts f' stack)"
| "evalTokens (TLParen # ts) f stack =
     (case cur f of Some u \<Rightarrow> None | None \<Rightarrow> evalTokens ts emptyFrame (f # stack))"
| "evalTokens (TRParen # ts) f stack =
     (case stack of
        [] \<Rightarrow> None
      | g # stack' \<Rightarrow>
          (case finishFrame f of
             None \<Rightarrow> None
           | Some v \<Rightarrow>
               (case feedOperand v g of
                  None \<Rightarrow> None
                | Some g' \<Rightarrow> evalTokens ts g' stack')))"

definition jsFunction :: "string \<Rightarrow> jsnum option" where
  "jsFunction expression =
     (case lex expression of None \<Rightarrow> None | Some ts \<Rightarrow> evalTokens ts emptyFrame [])"


section \<open>The evaluator\<close>

text \<open>What \<open>safeEvaluate\<close> returns: the string \<open>"Error"\<close> or a Number.\<close>

datatype outcome = Error | Value jsnum

text \<open>The constant \<open>MINIMUM_VALUE_THRESHOLD = 1e-15\<close>: the Number denoted by that literal.\<close>

definition MINIMUM_VALUE_THRESHOLD :: jsnum where
  "MINIMUM_VALUE_THRESHOLD = decimalValue 1 (- 15)"

text \<open>The three \<open>replace\<close> calls that sanitize the expression.\<close>

definition sanitize :: "string \<Rightarrow> string" where
  "sanitize expression =
     replaceAll divideSign (CHR ''/'')
       (replaceAll timesSign (CHR ''*'') (filter (\<lambda>c. \<not> isSpace c) expression))"

text \<open>
  \<open>safeEvaluate\<close>. The \<open>catch\<close> branch and the test \<open>typeof result !== 'number'\<close> are the
  case \<open>None\<close> of the host's evaluation. The literal \<open>0\<close> returned for a tiny result is
  positive zero.
\<close>

definition safeEvaluate :: "string \<Rightarrow> outcome" where
  "safeEvaluate expression0 =
     (let expression = sanitize expression0
      in if \<not> isValidExpression expression then Error
         else
           case jsFunction expression of
             None \<Rightarrow> Error
           | Some result \<Rightarrow>
               if \<not> isFinite result then Error
               else if jsLess (mathAbs result) MINIMUM_VALUE_THRESHOLD then Value (Finite False 0 0)
               else Value result)"

section \<open>The calculator\<close>

text \<open>
  The fields of \<open>Calculator\<close> that \<open>handleInput\<close> reads and writes; \<open>null\<close> is \<open>None\<close>. The
  call of \<open>updateDisplay\<close> that ends \<open>handleInput\<close> writes to the page only.
\<close>

record calculator =
  currentExpression :: string
  lastResult :: "jsnum option"

text \<open>The state the constructor sets up.\<close>

definition initialState :: calculator where
  "initialState = \<lparr>currentExpression = [], lastResult = None\<rparr>"

text \<open>\<open>key >= '0' && key <= '9'\<close>, a comparison of strings.\<close>

definition isNumericKey :: "string \<Rightarrow> bool" where
  "isNumericKey key = (strLe ''0'' key \<and> strLe key ''9'')"

definition isOperatorKey :: "string \<Rightarrow> bool" where
  "isOperatorKey key = (key \<in> set [''+'', ''-'', ''*'', ''/'', [timesSign], [divideSign]])"

text \<open>
  \<open>canAddDecimal\<close>: the last part of the expression split at \<open>/[+\-*/()]/\<close> is what follows
  the last of these characters.
\<close>

definition canAddDecimal :: "calculator \<Rightarrow> bool" where
  "canAddDecimal st =
     (let lastPart = rev (takeWhile (\<lambda>c. c \<notin> set ''+-*/()'') (rev (currentExpression st)))
      in CHR ''.'' \<notin> set lastPart)"

definition clearCalculator :: "calculator \<Rightarrow> calculator" where
  "clearCalculator st = st\<lparr>currentExpression := [], lastResult := None\<rparr>"

definition handleBackspace :: "calculator \<Rightarrow> calculator" where
  "handleBackspace st =
     (let st1 = st\<lparr>currentExpression := sliceInit (currentExpression st)\<rparr>
      in case lastResult st1 of
           None \<Rightarrow> st1
         | Some r \<Rightarrow>
             if currentExpression st1 = sliceInit (toString r) then st1\<lparr>lastResult := None\<rparr>
             else st1)"

definition calculateResult :: "calculator \<Rightarrow> calculator" where
  "calculateResult st =
     (if currentExpression st = [] then st
      else
        case safeEvaluate (currentExpression st) of
          Value result \<Rightarrow> st\<lparr>lastResult := Some result, currentExpression := toString result\<rparr>
        | Error \<Rightarrow> st\<lparr>currentExpression := [], lastResult := None\<rparr>)"

definition handleDecimalInput :: "string \<Rightarrow> calculator \<Rightarrow> calculator" where
  "handleDecimalInput lastChar st =
     (if \<not> canAddDecimal st then st
      else if currentExpression st = [] \<or> isOperator lastChar \<or> lastChar = ''('' then
        st\<lparr>currentExpression := currentExpression st @ ''0.''\<rparr>
      else if lastChar \<noteq> ''.'' \<and> \<not> isOperator lastChar \<and> lastChar \<noteq> ''('' then
        st\<lparr>currentExpression := currentExpression st @ ''.''\<rparr>
      else st)"

definition handleNumberInput :: "string \<Rightarrow> string \<Rightarrow> calculator \<Rightarrow> calculator" where
  "handleNumberInput input lastChar st =
     (if lastResult st \<noteq> None \<and> \<not> isOperator lastChar \<and> lastChar \<noteq> ''.'' then
        st\<lparr>currentExpression := input, lastResult := None\<rparr>
      else st\<lparr>currentExpression := currentExpression st @ input\<rparr>)"

definition handleOperatorInput :: "string \<Rightarrow> string \<Rightarrow> calculator \<Rightarrow> calculator" where
  "handleOperatorInput input lastChar st =
     (let normalizedInput =
            replaceFirst divideSign (CHR ''/'') (replaceFirst timesSign (CHR ''*'') input)
      in if currentExpression st = [] \<and> normalizedInput \<noteq> ''-'' then st
         else if isOperator lastChar then
           st\<lparr>currentExpression := sliceInit (currentExpression st) @ normalizedInput\<rparr>
         else if lastChar \<noteq> [] then
           st\<lparr>currentExpression := currentExpression st @ normalizedInput, lastResult := None\<rparr>
         else st)"

definition handleParenthesesInput :: "string \<Rightarrow> string \<Rightarrow> calculator \<Rightarrow> calculator" where
  "handleParenthesesInput input lastChar st =
     (let st1 =
            (if input = ''('' then
               (let st0 =
                      (if lastChar \<noteq> [] \<and> \<not> isOperator lastChar \<and> lastChar \<noteq> ''('' then
                         st\<lparr>currentExpression := currentExpression st @ ''*''\<rparr>
                       else st)
                in st0\<lparr>currentExpression := currentExpression st0 @ ''(''\<rparr>)
             else if input = '')'' then
               (let openParens = countChar (CHR ''('') (currentExpression st);
                    closeParens = countChar (CHR '')'') (currentExpression st)
                in if closeParens < openParens \<and> lastChar \<noteq> ''('' \<and> \<not> isOperator lastChar then
                     st\<lparr>currentExpression := currentExpression st @ '')''\<rparr>
                   else st)
             else st)
      in st1\<lparr>lastResult := None\<rparr>)"

definition handleInput :: "string \<Rightarrow> calculator \<Rightarrow> calculator" where
  "handleInput input st =
     (let lastChar = sliceLast (currentExpression st)
      in if input = ''clear'' then clearCalculator st
         else if input = ''backspace'' then handleBackspace st
         else if input = ''equal'' then calculateResult st
         else if input = ''.'' then handleDecimalInput lastChar st
         else if isNumericKey input then handleNumberInput input lastChar st
         else if isOperator input \<or> isOperatorKey input then handleOperatorInput input lastChar st
         else if input = ''('' \<or> input = '')'' then handleParenthesesInput input lastChar st
         else st)"

text \<open>
  The input tokens: the three commands, and the one-character key names that
  \<open>handleKeyboard\<close> forwards (a digit, an operator, or one of \<open>. ( )\<close>).
\<close>

definition isToken :: "string \<Rightarrow> bool" where
  "isToken input =
     (input \<in> set [''clear'', ''backspace'', ''equal'']
      \<or> (length input = 1
          \<and> (isNumericKey input \<or> isOperatorKey input \<or> input \<in> set [''.'', ''('', '')''])))"

text \<open>A sequence of inputs, handled one after the other.\<close>

definition handleInputs :: "string list \<Rightarrow> calculator \<Rightarrow> calculator" where
  "handleInputs inputs st = foldl (\<lambda>s input. handleInput input s) st inputs"

section \<open>Properties of states and inputs\<close>

text \<open>
  The inputs a handler declines by an explicit guard: an operator other than \<open>-\<close> on an
  empty expression (the early \<open>return\<close> of \<open>handleOperatorInput\<close>), a \<open>)\<close> that fails the
  test of \<open>handleParenthesesInput\<close>, and a point that fails \<open>canAddDecimal\<close>.
\<close>

definition rejects :: "calculator \<Rightarrow> string \<Rightarrow> bool" where
  "rejects st input =
     (if isOperatorKey input then
        currentExpression st = []
        \<and> replaceFirst divideSign (CHR ''/'') (replaceFirst timesSign (CHR ''*'') input) \<noteq> ''-''
      else if input = '')'' then
        \<not> (countChar (CHR '')'') (currentExpression st) < countChar (CHR ''('') (currentExpression st)
           \<and> sliceLast (currentExpression st) \<noteq> ''(''
           \<and> \<not> isOperator (sliceLast (currentExpression st)))
      else if input = ''.'' then \<not> canAddDecimal st
      else False)"

text \<open>The running balance of parentheses stays at or above zero, starting from \<open>n\<close>.\<close>

fun neverNegative :: "int \<Rightarrow> string \<Rightarrow> bool" where
  "neverNegative n [] = (0 \<le> n)"
| "neverNegative n (c # cs) =
     (if n < 0 then False
      else neverNegative (if c = CHR ''('' then n + 1 else if c = CHR '')'' then n - 1 else n) cs)"

text \<open>\<open>lastResult\<close> is absent or a finite Number.\<close>

definition lastResultFinite :: "calculator \<Rightarrow> bool" where
  "lastResultFinite st = (case lastResult st of None \<Rightarrow> True | Some v \<Rightarrow> isFinite v)"

section \<open>Inputs and their handlers\<close>

lemma of_char_range_digit:
  assumes "48 \<le> (of_char c :: nat)" "(of_char c :: nat) \<le> 57"
  shows "isDigit c"
proof -
  define n where "n = (of_char c :: nat)"
  have inj: "\<And>d. n = of_char d \<Longrightarrow> c = d"
    unfolding n_def by (simp only: of_char_eq_iff)
  have "n \<in> {48, 49, 50, 51, 52, 53, 54, 55, 56, 57}"
    using assms unfolding n_def [symmetric] by (simp del: of_char_of) arith
  then have "n = of_char (CHR ''0'') \<or> n = of_char (CHR ''1'') \<or> n = of_char (CHR ''2'')
      \<or> n = of_char (CHR ''3'') \<or> n = of_char (CHR ''4'') \<or> n = of_char (CHR ''5'')
      \<or> n = of_char (CHR ''6'') \<or> n = of_char (CHR ''7'') \<or> n = of_char (CHR ''8'')
      \<or> n = of_char (CHR ''9'')"
    by simp
  then have "c = CHR ''0'' \<or> c = CHR ''1'' \<or> c = CHR ''2'' \<or> c = CHR ''3'' \<or> c = CHR ''4''
      \<or> c = CHR ''5'' \<or> c = CHR ''6'' \<or> c = CHR ''7'' \<or> c = CHR ''8'' \<or> c = CHR ''9''"
    using inj by blast
  then show ?thesis
    by (simp add: isDigit_def)
qed

lemma isNumericKey_isDigit: "isNumericKey [c] \<Longrightarrow> isDigit c"
proof -
  assume a: "isNumericKey [c]"
  have lo: "48 \<le> (of_char c :: nat)"
    using a by (auto simp: isNumericKey_def split: if_splits)
  have hi: "(of_char c :: nat) \<le> 57"
    using a by (auto simp: isNumericKey_def split: if_splits)
  show ?thesis using lo hi by (rule of_char_range_digit)
qed

lemma handleInput_digit:
  "isDigit c \<Longrightarrow> handleInput [c] st = handleNumberInput [c] (sliceLast (currentExpression st)) st"
  by (auto simp: handleInput_def isDigit_def isNumericKey_def)

lemma handleInput_operator:
  "isOperatorKey t \<Longrightarrow> handleInput t st = handleOperatorInput t (sliceLast (currentExpression st)) st"
  by (auto simp: handleInput_def isOperatorKey_def isNumericKey_def timesSign_def divideSign_def)

lemma handleInput_open:
  "handleInput ''('' st = handleParenthesesInput ''('' (sliceLast (currentExpression st)) st"
  by (simp add: handleInput_def isNumericKey_def isOperator_def isOperatorKey_def Let_def
      timesSign_def divideSign_def)

lemma handleInput_close:
  "handleInput '')'' st = handleParenthesesInput '')'' (sliceLast (currentExpression st)) st"
  by (simp add: handleInput_def isNumericKey_def isOperator_def isOperatorKey_def Let_def
      timesSign_def divideSign_def)

lemma handleInput_point:
  "handleInput ''.'' st = handleDecimalInput (sliceLast (currentExpression st)) st"
  by (simp add: handleInput_def)

lemma handleInput_clear: "handleInput ''clear'' st = clearCalculator st"
  by (simp add: handleInput_def)

lemma handleInput_backspace: "handleInput ''backspace'' st = handleBackspace st"
  by (simp add: handleInput_def)

lemma handleInput_equal: "handleInput ''equal'' st = calculateResult st"
  by (simp add: handleInput_def)

lemma isToken_cases:
  assumes "isToken t"
  shows "t = ''clear'' \<or> t = ''backspace'' \<or> t = ''equal'' \<or> t = ''.'' \<or> t = ''('' \<or> t = '')''
         \<or> isOperatorKey t \<or> (\<exists>c. t = [c] \<and> isDigit c)"
proof (cases "length t = 1")
  case True
  then obtain c where t: "t = [c]"
    by (cases t) auto
  show ?thesis
    using assms isNumericKey_isDigit [of c] unfolding t isToken_def by auto
next
  case False
  then show ?thesis
    using assms unfolding isToken_def by auto
qed


section \<open>Rejected inputs\<close>

text \<open>
  Claim C1, as amended. An input that a handler declines by one of its guards (see
  \<open>rejects\<close>) leaves the expression as it is. It leaves \<open>lastResult\<close> as it is too,
  unless the input is \<open>)\<close>: \<open>handleParenthesesInput\<close> resets \<open>lastResult\<close> to \<open>null\<close> after
  both of its branches, so a declined \<open>)\<close> still clears it.
\<close>

theorem rejected_input_keeps_expression:
  assumes "rejects st input"
  shows "currentExpression (handleInput input st) = currentExpression st
         \<and> lastResult (handleInput input st) = (if input = '')'' then None else lastResult st)"
proof (cases "isOperatorKey input")
  case True
  then have "input \<noteq> '')''"
    by (auto simp: isOperatorKey_def timesSign_def divideSign_def)
  then show ?thesis
    using assms True
    by (simp add: rejects_def handleInput_operator handleOperatorInput_def)
next
  case False
  note notop = this
  show ?thesis
  proof (cases "input = '')''")
    case True
    then show ?thesis
      using assms notop
      by (simp add: rejects_def handleInput_close handleParenthesesInput_def Let_def)
  next
    case False
    then have "input = ''.''" and "\<not> canAddDecimal st"
      using assms notop by (auto simp: rejects_def split: if_splits)
    then show ?thesis
      by (simp add: handleInput_point handleDecimalInput_def)
  qed
qed

theorem rejected_input_keeps_expression_witness:
  "rejects initialState ''*''
   \<and> (currentExpression (handleInput ''*'' initialState) = currentExpression initialState
      \<and> lastResult (handleInput ''*'' initialState)
          = (if ''*'' = '')'' then None else lastResult initialState))"
proof -
  have h: "rejects initialState ''*''"
    by code_simp
  show ?thesis
    using h rejected_input_keeps_expression [OF h] by (rule conjI)
qed

text \<open>
  Claim C1 as stated fails. After the inputs \<open>5\<close> and \<open>equal\<close> the expression is \<open>5\<close> and
  \<open>lastResult\<close> is the Number 5. A \<open>)\<close> is then declined (there is no open parenthesis),
  and yet the state changes: \<open>lastResult\<close> becomes \<open>null\<close>.
\<close>

theorem rejected_close_paren_changes_state:
  "handleInputs [''5'', ''equal''] initialState
     = \<lparr>currentExpression = ''5'', lastResult = Some (Finite False 5 0)\<rparr>
   \<and> rejects \<lparr>currentExpression = ''5'', lastResult = Some (Finite False 5 0)\<rparr> '')''
   \<and> handleInput '')'' \<lparr>currentExpression = ''5'', lastResult = Some (Finite False 5 0)\<rparr>
     = \<lparr>currentExpression = ''5'', lastResult = None\<rparr>
   \<and> handleInput '')'' \<lparr>currentExpression = ''5'', lastResult = Some (Finite False 5 0)\<rparr>
     \<noteq> \<lparr>currentExpression = ''5'', lastResult = Some (Finite False 5 0)\<rparr>"
  by code_simp


section \<open>Operators\<close>

text \<open>
  Claim C3: on an empty expression the operator \<open>-\<close> should start a negative number. The
  code does not do that: the early \<open>return\<close> of \<open>handleOperatorInput\<close> lets \<open>-\<close> pass, but
  with an empty expression \<open>lastChar\<close> is the empty string, so neither the branch
  \<open>isOperator(lastChar)\<close> nor the branch \<open>lastChar !== ""\<close> is taken and nothing is
  appended.
\<close>

theorem leading_minus_is_ignored:
  "handleInput ''-'' initialState = initialState
   \<and> currentExpression (handleInput ''-'' initialState) \<noteq> ''-''"
  by (simp add: handleInput_def initialState_def isNumericKey_def isOperator_def
      handleOperatorInput_def sliceLast_def timesSign_def divideSign_def)

text \<open>
  Claim C4, as amended. When the expression ends in one of \<open>+ - * /\<close>, an operator input
  replaces that last character by the new operator (\<open>\<times>\<close> and \<open>\<div>\<close> written as \<open>*\<close> and
  \<open>/\<close>) and changes nothing else. Hence the inputs \<open>5\<close>, \<open>*\<close>, \<open>-\<close>, \<open>3\<close> give the
  expression \<open>5-3\<close>: the \<open>-\<close> replaces the \<open>*\<close>.
\<close>

theorem operator_replaces_trailing_operator:
  assumes "currentExpression st \<noteq> []"
    and "last (currentExpression st) \<in> set ''+-*/''"
    and "isOperatorKey input"
  shows "handleInput input st
           = st\<lparr>currentExpression :=
                  butlast (currentExpression st)
                  @ (if input = [timesSign] then ''*''
                     else if input = [divideSign] then ''/'' else input)\<rparr>
         \<and> handleInputs [''5'', ''*'', ''-'', ''3''] initialState
           = \<lparr>currentExpression = ''5-3'', lastResult = None\<rparr>"
proof
  have op: "isOperator (sliceLast (currentExpression st))"
    using assms(1,2) by (auto simp: sliceLast_def isOperator_def)
  have norm: "replaceFirst divideSign (CHR ''/'') (replaceFirst timesSign (CHR ''*'') input)
      = (if input = [timesSign] then ''*'' else if input = [divideSign] then ''/'' else input)"
    using assms(3) by (auto simp: isOperatorKey_def timesSign_def divideSign_def)
  show "handleInput input st
           = st\<lparr>currentExpression :=
                  butlast (currentExpression st)
                  @ (if input = [timesSign] then ''*''
                     else if input = [divideSign] then ''/'' else input)\<rparr>"
    using assms(1) op
    by (simp only: handleInput_operator [OF assms(3)] handleOperatorInput_def Let_def norm
        sliceInit_def) simp
  show "handleInputs [''5'', ''*'', ''-'', ''3''] initialState
           = \<lparr>currentExpression = ''5-3'', lastResult = None\<rparr>"
    by code_simp
qed

theorem operator_replaces_trailing_operator_witness:
  "(currentExpression \<lparr>currentExpression = ''5*'', lastResult = None\<rparr> \<noteq> []
    \<and> last (currentExpression \<lparr>currentExpression = ''5*'', lastResult = None\<rparr>) \<in> set ''+-*/''
    \<and> isOperatorKey ''-'')
   \<and> handleInput ''-'' \<lparr>currentExpression = ''5*'', lastResult = None\<rparr>
     = \<lparr>currentExpression = ''5-'', lastResult = None\<rparr>"
proof -
  let ?st = "\<lparr>currentExpression = ''5*'', lastResult = None\<rparr>"
  have h1: "currentExpression ?st \<noteq> []" by simp
  have h2: "last (currentExpression ?st) \<in> set ''+-*/''" by simp
  have h3: "isOperatorKey ''-''" by (simp add: isOperatorKey_def)
  have "handleInput ''-'' ?st = \<lparr>currentExpression = ''5-'', lastResult = None\<rparr>"
    using conjunct1 [OF operator_replaces_trailing_operator [OF h1 h2 h3]]
    by (simp add: timesSign_def divideSign_def)
  with h1 h2 h3 show ?thesis by blast
qed

text \<open>
  Claim C4 as stated fails: the inputs \<open>5\<close>, \<open>*\<close>, \<open>-\<close>, \<open>3\<close> do not give \<open>5*-3\<close>. The \<open>-\<close>
  replaces the trailing \<open>*\<close>, and the expression is \<open>5-3\<close>.
\<close>

theorem times_then_minus_drops_times:
  "handleInputs [''5'', ''*''] initialState = \<lparr>currentExpression = ''5*'', lastResult = None\<rparr>
   \<and> handleInputs [''5'', ''*'', ''-''] initialState = \<lparr>currentExpression = ''5-'', lastResult = None\<rparr>
   \<and> currentExpression (handleInputs [''5'', ''*'', ''-'', ''3''] initialState) = ''5-3''
   \<and> currentExpression (handleInputs [''5'', ''*'', ''-'', ''3''] initialState) \<noteq> ''5*-3''"
  by code_simp


section \<open>The evaluator's outcomes\<close>

lemma safeEvaluate_value_finite: "safeEvaluate e = Value v \<Longrightarrow> isFinite v"
  by (auto simp: safeEvaluate_def Let_def split: if_splits option.splits)

text \<open>
  Claim C2. \<open>safeEvaluate("5*-3")\<close> is the Number \<open>-15\<close> (negative sign, magnitude
  \<open>15 * 2^0\<close>): an operator followed by a unary minus is accepted.
  \<open>safeEvaluate("3--2")\<close> is \<open>"Error"\<close>, and so is every expression which, once
  sanitized, contains two adjacent \<open>-\<close>.
\<close>

theorem unary_minus_accepted_double_minus_rejected:
  "safeEvaluate ''5*-3'' = Value (Finite True 15 0)
   \<and> safeEvaluate ''3--2'' = Error
   \<and> (hasRun2 (\<lambda>c. c = CHR ''-'') (sanitize e) \<longrightarrow> safeEvaluate e = Error)"
proof -
  have a: "safeEvaluate ''5*-3'' = Value (Finite True 15 0)"
    by code_simp
  have b: "safeEvaluate ''3--2'' = Error"
    by code_simp
  have c: "hasRun2 (\<lambda>c. c = CHR ''-'') (sanitize e) \<longrightarrow> safeEvaluate e = Error"
    by (simp add: safeEvaluate_def isValidExpression_def Let_def)
  from a b c show ?thesis
    by (intro conjI)
qed

theorem unary_minus_accepted_double_minus_rejected_witness:
  "hasRun2 (\<lambda>c. c = CHR ''-'') (sanitize ''7 - -1'') \<and> safeEvaluate ''7 - -1'' = Error"
proof -
  have h: "hasRun2 (\<lambda>c. c = CHR ''-'') (sanitize ''7 - -1'')"
    by code_simp
  have "hasRun2 (\<lambda>c. c = CHR ''-'') (sanitize ''7 - -1'') \<longrightarrow> safeEvaluate ''7 - -1'' = Error"
    using conjunct2 [OF unary_minus_accepted_double_minus_rejected [of "''7 - -1''"]]
    by (rule conjunct2)
  with h show ?thesis by blast
qed

text \<open>
  Claim C6. Whenever the host's value of the sanitized expression is not finite (an
  infinity or NaN), \<open>safeEvaluate\<close> returns \<open>"Error"\<close>; it never returns NaN or an
  infinity. In particular \<open>5/0\<close> is \<open>+Infinity\<close> for the host and \<open>"Error"\<close> for
  \<open>safeEvaluate\<close>.
\<close>

theorem nonfinite_result_is_error:
  "(jsFunction (sanitize e) = Some v \<and> \<not> isFinite v \<longrightarrow> safeEvaluate e = Error)
   \<and> safeEvaluate e \<noteq> Value NaN
   \<and> safeEvaluate e \<noteq> Value (Infinity s)
   \<and> jsFunction ''5/0'' = Some (Infinity False)
   \<and> safeEvaluate ''5/0'' = Error"
proof -
  have a: "jsFunction (sanitize e) = Some v \<and> \<not> isFinite v \<longrightarrow> safeEvaluate e = Error"
    by (simp add: safeEvaluate_def Let_def)
  have b: "safeEvaluate e \<noteq> Value NaN"
    using safeEvaluate_value_finite [of e NaN] by auto
  have c: "safeEvaluate e \<noteq> Value (Infinity s)"
    using safeEvaluate_value_finite [of e "Infinity s"] by auto
  have d: "jsFunction ''5/0'' = Some (Infinity False)"
    by code_simp
  have e: "safeEvaluate ''5/0'' = Error"
    by code_simp
  from a b c d e show ?thesis
    by (intro conjI)
qed

theorem nonfinite_result_is_error_witness:
  "(jsFunction (sanitize ''0/0'') = Some NaN \<and> \<not> isFinite NaN) \<and> safeEvaluate ''0/0'' = Error"
proof -
  have h: "jsFunction (sanitize ''0/0'') = Some NaN \<and> \<not> isFinite NaN"
    by code_simp
  have "jsFunction (sanitize ''0/0'') = Some NaN \<and> \<not> isFinite NaN \<longrightarrow> safeEvaluate ''0/0'' = Error"
    using nonfinite_result_is_error [of "''0/0''" NaN] by (rule conjunct1)
  with h show ?thesis by blast
qed

text \<open>
  Claim C9. If the sanitized expression is valid and the host's value is finite with
  \<open>Math.abs(result) < MINIMUM_VALUE_THRESHOLD\<close>, then \<open>safeEvaluate\<close> returns exactly
  \<open>0\<close> (positive zero). The threshold is the Number denoted by \<open>1e-15\<close>, that is
  \<open>2535301200456459 * 2^(-101)\<close>.
\<close>

theorem tiny_result_is_zero:
  assumes "isValidExpression (sanitize e)"
    and "jsFunction (sanitize e) = Some v"
    and "isFinite v"
    and "jsLess (mathAbs v) MINIMUM_VALUE_THRESHOLD"
  shows "safeEvaluate e = Value (Finite False 0 0)
         \<and> MINIMUM_VALUE_THRESHOLD = Finite False 2535301200456459 (- 101)"
proof
  show "safeEvaluate e = Value (Finite False 0 0)"
    using assms by (simp add: safeEvaluate_def)
  show "MINIMUM_VALUE_THRESHOLD = Finite False 2535301200456459 (- 101)"
    by code_simp
qed

theorem tiny_result_is_zero_witness:
  "(isValidExpression (sanitize ''1/10000000000000000'')
    \<and> jsFunction (sanitize ''1/10000000000000000'') = Some (Finite False 2028240960365167 (- 104))
    \<and> isFinite (Finite False 2028240960365167 (- 104))
    \<and> jsLess (mathAbs (Finite False 2028240960365167 (- 104))) MINIMUM_VALUE_THRESHOLD)
   \<and> safeEvaluate ''1/10000000000000000'' = Value (Finite False 0 0)"
proof -
  have h1: "isValidExpression (sanitize ''1/10000000000000000'')"
    by code_simp
  have h2: "jsFunction (sanitize ''1/10000000000000000'') = Some (Finite False 2028240960365167 (- 104))"
    by code_simp
  have h3: "isFinite (Finite False 2028240960365167 (- 104))"
    by simp
  have h4: "jsLess (mathAbs (Finite False 2028240960365167 (- 104))) MINIMUM_VALUE_THRESHOLD"
    by code_simp
  have "safeEvaluate ''1/10000000000000000'' = Value (Finite False 0 0)"
    using tiny_result_is_zero [OF h1 h2 h3 h4] by (rule conjunct1)
  with h1 h2 h3 h4 show ?thesis by blast
qed


section \<open>A result and the digit after it\<close>

text \<open>
  Claim C8. When the expression is not empty and \<open>safeEvaluate\<close> returns the Number
  \<open>v\<close>, the input \<open>equal\<close> sets the expression to \<open>v.toString()\<close> and \<open>lastResult\<close> to \<open>v\<close>.
  A digit entered next, with the last character of that string neither an operator nor a
  point, makes the expression that digit alone and resets \<open>lastResult\<close> to \<open>null\<close>.
\<close>

theorem equal_then_digit:
  assumes "currentExpression st \<noteq> []"
    and "safeEvaluate (currentExpression st) = Value v"
  shows "handleInput ''equal'' st = \<lparr>currentExpression = toString v, lastResult = Some v\<rparr>
         \<and> (isDigit d \<and> \<not> isOperator (sliceLast (toString v)) \<and> sliceLast (toString v) \<noteq> ''.''
              \<longrightarrow> handleInput [d] (handleInput ''equal'' st)
                    = \<lparr>currentExpression = [d], lastResult = None\<rparr>)"
proof -
  have eq: "handleInput ''equal'' st = \<lparr>currentExpression = toString v, lastResult = Some v\<rparr>"
    using assms by (simp add: handleInput_equal calculateResult_def)
  show ?thesis
    unfolding eq by (simp add: handleInput_digit handleNumberInput_def)
qed

theorem equal_then_digit_witness:
  "(currentExpression \<lparr>currentExpression = ''(5+3)*2'', lastResult = None\<rparr> \<noteq> []
    \<and> safeEvaluate (currentExpression \<lparr>currentExpression = ''(5+3)*2'', lastResult = None\<rparr>)
        = Value (Finite False 1 4))
   \<and> handleInput ''equal'' \<lparr>currentExpression = ''(5+3)*2'', lastResult = None\<rparr>
       = \<lparr>currentExpression = ''16'', lastResult = Some (Finite False 1 4)\<rparr>
   \<and> handleInput ''7'' (handleInput ''equal'' \<lparr>currentExpression = ''(5+3)*2'', lastResult = None\<rparr>)
       = \<lparr>currentExpression = ''7'', lastResult = None\<rparr>"
proof -
  let ?st = "\<lparr>currentExpression = ''(5+3)*2'', lastResult = None\<rparr>"
  have h1: "currentExpression ?st \<noteq> []" by simp
  have h2: "safeEvaluate (currentExpression ?st) = Value (Finite False 1 4)"
    by code_simp
  have s: "toString (Finite False 1 4) = ''16''"
    by code_simp
  have d: "isDigit (CHR ''7'') \<and> \<not> isOperator (sliceLast ''16'') \<and> sliceLast ''16'' \<noteq> ''.''"
    by code_simp
  note t = equal_then_digit [OF h1 h2, of "CHR ''7''", unfolded s]
  from t d have "handleInput ''equal'' ?st = \<lparr>currentExpression = ''16'', lastResult = Some (Finite False 1 4)\<rparr>"
    and "handleInput ''7'' (handleInput ''equal'' ?st) = \<lparr>currentExpression = ''7'', lastResult = None\<rparr>"
    by blast+
  with h1 h2 show ?thesis by blast
qed

section \<open>Invariants of the reachable states\<close>

subsection \<open>The last result\<close>

lemma handleInput_lastResultFinite:
  assumes "lastResultFinite st"
  shows "lastResultFinite (handleInput input st)"
proof -
  have calc: "lastResultFinite (calculateResult st)"
    using assms safeEvaluate_value_finite
    by (auto simp: calculateResult_def lastResultFinite_def split: outcome.splits)
  have bsp: "lastResultFinite (handleBackspace st)"
    using assms by (auto simp: handleBackspace_def lastResultFinite_def Let_def split: option.splits)
  have others: "lastResultFinite (clearCalculator st)"
    "\<And>l. lastResultFinite (handleDecimalInput l st)"
    "\<And>i l. lastResultFinite (handleNumberInput i l st)"
    "\<And>i l. lastResultFinite (handleOperatorInput i l st)"
    "\<And>i l. lastResultFinite (handleParenthesesInput i l st)"
    using assms
    by (auto simp: clearCalculator_def handleDecimalInput_def handleNumberInput_def
        handleOperatorInput_def handleParenthesesInput_def lastResultFinite_def Let_def)
  show ?thesis
    unfolding handleInput_def Let_def using calc bsp others assms by simp
qed

lemma handleInputs_lastResultFinite:
  "lastResultFinite st \<Longrightarrow> lastResultFinite (handleInputs inputs st)"
  unfolding handleInputs_def
  by (induction inputs arbitrary: st) (simp_all add: handleInput_lastResultFinite)

text \<open>
  Claim C10. Starting from the initial state, after any sequence of inputs (tokens or
  not) \<open>lastResult\<close> is \<open>null\<close> or a finite Number: never NaN, never an infinity. It is
  assigned only in \<open>calculateResult\<close>, from a result of \<open>safeEvaluate\<close> other than
  \<open>"Error"\<close>, and such a result has passed the test \<open>isFinite\<close>.
\<close>

theorem lastResult_absent_or_finite:
  "lastResult (handleInputs inputs initialState) = None
   \<or> (\<exists>s m e. lastResult (handleInputs inputs initialState) = Some (Finite s m e))"
proof -
  have "lastResultFinite initialState"
    by (simp add: lastResultFinite_def initialState_def)
  then have "lastResultFinite (handleInputs inputs initialState)"
    by (rule handleInputs_lastResultFinite)
  then show ?thesis
    by (auto simp: lastResultFinite_def split: option.splits elim: isFinite.elims)
qed

subsection \<open>The characters of a stringified Number\<close>

lemma digitChars_digits: "set (digitChars n) \<subseteq> set ''0123456789''"
proof (induction n rule: digitChars.induct)
  case (1 n)
  have nth: "\<And>k. k < 10 \<Longrightarrow> ''0123456789'' ! k \<in> set ''0123456789''"
    by (rule nth_mem) simp
  show ?case
  proof (cases "n < 10")
    case True
    then have "nat n < 10" by simp
    then show ?thesis
      using nth [of "nat n"] True by (subst digitChars.simps) simp
  next
    case False
    have "nat (n mod 10) < 10" by simp
    then have "''0123456789'' ! nat (n mod 10) \<in> set ''0123456789''"
      by (rule nth)
    then show ?thesis
      using False 1 by (subst digitChars.simps) simp
  qed
qed


lemma formatDigits_chars:
  assumes ds: "set ds \<subseteq> R"
    and sy: "set ''0.e+-'' \<subseteq> R"
    and dc: "\<And>k. set (digitChars k) \<subseteq> R"
  shows "set (formatDigits ds n) \<subseteq> R"
proof -
  have tk: "\<And>k. set (take k ds) \<subseteq> R"
    using ds set_take_subset by fast
  have dr: "\<And>k. set (drop k ds) \<subseteq> R"
    using ds set_drop_subset by fast
  have rp: "\<And>k. set (replicate k (CHR ''0'')) \<subseteq> R"
    using sy by auto
  have sy': "CHR ''0'' \<in> R" "CHR ''.'' \<in> R" "CHR ''e'' \<in> R" "CHR ''+'' \<in> R" "CHR ''-'' \<in> R"
    using sy by auto
  show ?thesis
    unfolding formatDigits_def Let_def
    using ds tk dr rp sy' dc
    by (simp split: if_split)
qed

lemma toString_chars:
  assumes "isFinite v"
    and sy: "set ''0123456789.e+-'' \<subseteq> R"
  shows "set (toString v) \<subseteq> R"
proof (cases v)
  case (Finite s m e)
  have dc: "\<And>k. set (digitChars k) \<subseteq> R"
    using digitChars_digits sy by fastforce
  have sy': "set ''0.e+-'' \<subseteq> R"
    using sy by auto
  have fd: "\<And>d n. set (formatDigits (digitChars d) n) \<subseteq> R"
    using dc sy' dc by (rule formatDigits_chars)
  have z: "CHR ''0'' \<in> R" "CHR ''-'' \<in> R"
    using sy by auto
  show ?thesis
    unfolding Finite toString.simps Let_def
    using fd z by (auto split: prod.splits)
qed (use assms in simp_all)

subsection \<open>The balance of parentheses\<close>

lemma neverNegative_nonneg: "neverNegative n s \<Longrightarrow> 0 \<le> n"
  by (cases s) (auto split: if_splits)

lemma neverNegative_append:
  "neverNegative n (s @ t)
     = (neverNegative n s
        \<and> neverNegative (n + int (countChar (CHR ''('') s) - int (countChar (CHR '')'') s)) t)"
proof (induction s arbitrary: n)
  case Nil
  then show ?case
    using neverNegative_nonneg [of n t] by (auto simp: countChar_def)
next
  case (Cons c s)
  show ?case
  proof (cases "n < 0")
    case True
    then show ?thesis by simp
  next
    case False
    then show ?thesis
      using Cons.IH by (simp add: countChar_def algebra_simps)
  qed
qed

lemma neverNegative_end:
  assumes "neverNegative n s"
  shows "0 \<le> n + int (countChar (CHR ''('') s) - int (countChar (CHR '')'') s)"
proof -
  have "neverNegative n (s @ [])"
    using assms by simp
  then have "neverNegative (n + int (countChar (CHR ''('') s) - int (countChar (CHR '')'') s)) []"
    unfolding neverNegative_append by simp
  then show ?thesis
    by simp
qed

lemma neverNegative_no_close:
  "0 \<le> n \<Longrightarrow> CHR '')'' \<notin> set t \<Longrightarrow> neverNegative n t"
  by (induction t arbitrary: n) auto

lemma neverNegative_butlast:
  assumes "neverNegative n s"
  shows "neverNegative n (butlast s)"
proof (cases "s = []")
  case True
  then show ?thesis using assms by simp
next
  case False
  then have "neverNegative n (butlast s @ [last s])"
    using assms by simp
  then show ?thesis
    unfolding neverNegative_append by simp
qed

lemma neverNegative_append_no_close:
  assumes "neverNegative 0 s" and "CHR '')'' \<notin> set t"
  shows "neverNegative 0 (s @ t)"
  unfolding neverNegative_append
  using assms neverNegative_end [OF assms(1)] neverNegative_no_close by simp

lemma neverNegative_append_close:
  assumes "neverNegative 0 s"
    and "countChar (CHR '')'') s < countChar (CHR ''('') s"
  shows "neverNegative 0 (s @ '')'')"
  unfolding neverNegative_append
  using assms by simp

subsection \<open>What every handler preserves\<close>

text \<open>
  A property of the expression holds in every reachable state as soon as it holds of the
  empty expression and survives the five edits the handlers make: dropping the last
  character, appending a character other than \<open>)\<close>, appending \<open>)\<close> when there are fewer
  \<open>)\<close> than \<open>(\<close>, and replacing the expression by a stringified finite Number.
\<close>

lemma handleBackspace_expression:
  "currentExpression (handleBackspace st) = butlast (currentExpression st)"
  by (simp add: handleBackspace_def Let_def sliceInit_def split: option.splits)

lemma handleInput_expression_invariant:
  assumes tok: "isToken input"
    and P: "P (currentExpression st)"
    and empty: "P []"
    and bl: "\<And>e. P e \<Longrightarrow> P (butlast e)"
    and app: "\<And>e c. P e \<Longrightarrow> isDigit c \<or> c \<in> set ''+-*/(.'' \<Longrightarrow> P (e @ [c])"
    and close: "\<And>e. P e \<Longrightarrow> countChar (CHR '')'') e < countChar (CHR ''('') e \<Longrightarrow> P (e @ '')'')"
    and res: "\<And>v. isFinite v \<Longrightarrow> P (toString v)"
  shows "P (currentExpression (handleInput input st))"
proof -
  let ?e = "currentExpression st"
  have app2: "\<And>e a b. P e \<Longrightarrow> isDigit a \<or> a \<in> set ''+-*/(.'' \<Longrightarrow> isDigit b \<or> b \<in> set ''+-*/(.''
      \<Longrightarrow> P (e @ [a, b])"
  proof -
    fix e a b
    assume "P e" and a: "isDigit a \<or> a \<in> set ''+-*/(.''" and b: "isDigit b \<or> b \<in> set ''+-*/(.''"
    then have "P ((e @ [a]) @ [b])"
      using app by blast
    then show "P (e @ [a, b])"
      by simp
  qed
  have digit1: "\<And>c. isDigit c \<Longrightarrow> P [c]"
    using app [OF empty] by simp
  consider (clear) "input = ''clear''" | (backspace) "input = ''backspace''"
    | (equal) "input = ''equal''" | (point) "input = ''.''" | (opn) "input = ''(''"
    | (cls) "input = '')''" | (oper) "isOperatorKey input"
    | (digit) c where "input = [c]" "isDigit c"
    using isToken_cases [OF tok] by blast
  then show ?thesis
  proof cases
    case clear
    then show ?thesis
      by (simp add: handleInput_clear clearCalculator_def empty)
  next
    case backspace
    then show ?thesis
      using bl [OF P]
      by (simp add: handleInput_backspace handleBackspace_expression)
  next
    case equal
    then show ?thesis
      using P empty res [OF safeEvaluate_value_finite]
      by (simp add: handleInput_equal calculateResult_def split: outcome.splits)
  next
    case point
    have a: "P (?e @ ''0.'')"
      using app2 [OF P, of "CHR ''0''" "CHR ''.''"] by (simp add: isDigit_def)
    have b: "P (?e @ ''.'')"
      using app [OF P, of "CHR ''.''"] by simp
    show ?thesis
      unfolding point handleInput_point handleDecimalInput_def
      using P a b by simp
  next
    case opn
    have a: "P (?e @ ''*('')"
      using app2 [OF P, of "CHR ''*''" "CHR ''(''"] by simp
    have b: "P (?e @ ''('')"
      using app [OF P, of "CHR ''(''"] by simp
    show ?thesis
      unfolding opn handleInput_open handleParenthesesInput_def Let_def
      using a b by simp
  next
    case cls
    show ?thesis
      unfolding cls handleInput_close handleParenthesesInput_def Let_def
      using P close [OF P] by simp
  next
    case oper
    define norm where
      "norm = replaceFirst divideSign (CHR ''/'') (replaceFirst timesSign (CHR ''*'') input)"
    have "norm = ''+'' \<or> norm = ''-'' \<or> norm = ''*'' \<or> norm = ''/''"
      using oper unfolding norm_def
      by (auto simp: isOperatorKey_def timesSign_def divideSign_def)
    then obtain c where c: "norm = [c]" "c \<in> set ''+-*/(.''"
      by auto
    have a: "P (butlast ?e @ norm)"
      using app [OF bl [OF P], of c] c by simp
    have b: "P (?e @ norm)"
      using app [OF P, of c] c by simp
    show ?thesis
      unfolding handleInput_operator [OF oper] handleOperatorInput_def Let_def sliceInit_def
        norm_def [symmetric]
      using P a b empty by auto
  next
    case digit
    have a: "P (?e @ [c])"
      using app [OF P, of c] digit(2) by simp
    show ?thesis
      unfolding digit(1) handleInput_digit [OF digit(2)] handleNumberInput_def
      using a digit1 [OF digit(2)] by simp
  qed
qed

lemma handleInputs_expression_invariant:
  assumes tok: "list_all isToken inputs"
    and P: "P (currentExpression st)"
    and empty: "P []"
    and bl: "\<And>e. P e \<Longrightarrow> P (butlast e)"
    and app: "\<And>e c. P e \<Longrightarrow> isDigit c \<or> c \<in> set ''+-*/(.'' \<Longrightarrow> P (e @ [c])"
    and close: "\<And>e. P e \<Longrightarrow> countChar (CHR '')'') e < countChar (CHR ''('') e \<Longrightarrow> P (e @ '')'')"
    and res: "\<And>v. isFinite v \<Longrightarrow> P (toString v)"
  shows "P (currentExpression (handleInputs inputs st))"
  using tok P
proof (induction inputs arbitrary: st)
  case Nil
  then show ?case
    by (simp add: handleInputs_def)
next
  case (Cons input inputs)
  have "P (currentExpression (handleInput input st))"
    using Cons.prems empty bl app close res
    by (intro handleInput_expression_invariant [where P = P]) simp_all
  then have "P (currentExpression (handleInputs inputs (handleInput input st)))"
    using Cons.IH Cons.prems by simp
  then show ?case
    by (simp add: handleInputs_def)
qed

text \<open>
  Claim C7. After every prefix of a sequence of input tokens applied to the initial
  state, the expression has at most as many \<open>)\<close> as \<open>(\<close>.
\<close>

theorem close_parens_never_exceed_open:
  assumes "list_all isToken inputs"
  shows "countChar (CHR '')'') (currentExpression (handleInputs (take n inputs) initialState))
         \<le> countChar (CHR ''('') (currentExpression (handleInputs (take n inputs) initialState))"
proof -
  have tok: "list_all isToken (take n inputs)"
    using assms by (auto simp: list_all_iff dest: in_set_takeD)
  have "neverNegative 0 (currentExpression (handleInputs (take n inputs) initialState))"
  proof (rule handleInputs_expression_invariant [OF tok, where P = "neverNegative 0"])
    show "neverNegative 0 (currentExpression initialState)"
      by (simp add: initialState_def)
    show "neverNegative 0 []"
      by simp
    show "\<And>e. neverNegative 0 e \<Longrightarrow> neverNegative 0 (butlast e)"
      by (rule neverNegative_butlast)
    show "\<And>e c. neverNegative 0 e \<Longrightarrow> isDigit c \<or> c \<in> set ''+-*/(.'' \<Longrightarrow> neverNegative 0 (e @ [c])"
      by (rule neverNegative_append_no_close) (auto simp: isDigit_def)
    show "\<And>e. neverNegative 0 e \<Longrightarrow> countChar (CHR '')'') e < countChar (CHR ''('') e
        \<Longrightarrow> neverNegative 0 (e @ '')'')"
      by (rule neverNegative_append_close)
    show "\<And>v. isFinite v \<Longrightarrow> neverNegative 0 (toString v)"
    proof -
      fix v
      assume "isFinite v"
      then have "set (toString v) \<subseteq> set ''0123456789.e+-''"
        by (rule toString_chars) simp
      then have "CHR '')'' \<notin> set (toString v)"
        by auto
      then show "neverNegative 0 (toString v)"
        by (intro neverNegative_no_close) simp_all
    qed
  qed
  from neverNegative_end [OF this] show ?thesis
    by simp
qed

theorem close_parens_never_exceed_open_witness:
  "list_all isToken [''('', ''2'', '')'', '')'']
   \<and> countChar (CHR '')'')
        (currentExpression (handleInputs (take 4 [''('', ''2'', '')'', '')'']) initialState))
     \<le> countChar (CHR ''('')
        (currentExpression (handleInputs (take 4 [''('', ''2'', '')'', '')'']) initialState))"
proof -
  have h: "list_all isToken [''('', ''2'', '')'', '')'']"
    by code_simp
  show ?thesis
    using h close_parens_never_exceed_open [OF h, of 4] by (rule conjI)
qed

text \<open>
  Claim C5, as amended. After every sequence of input tokens applied to the initial
  state, the expression consists of the characters \<open>0-9 + - * / ( ) .\<close> and the letter
  \<open>e\<close>, which the stringified result of \<open>equal\<close> contains when it is in exponent notation.
\<close>

theorem expression_alphabet_with_exponent:
  assumes "list_all isToken inputs"
  shows "set (currentExpression (handleInputs inputs initialState)) \<subseteq> set ''0123456789+-*/().e''"
proof -
  define A where "A = set ''0123456789+-*/().e''"
  have num: "set ''0123456789.e+-'' \<subseteq> A"
    unfolding A_def by simp
  have sym: "\<And>c. isDigit c \<or> c \<in> set ''+-*/(.'' \<Longrightarrow> c \<in> A"
    unfolding A_def isDigit_def by auto
  have cl: "CHR '')'' \<in> A"
    unfolding A_def by simp
  have "set (currentExpression (handleInputs inputs initialState)) \<subseteq> A"
  proof (rule handleInputs_expression_invariant [OF assms, where P = "\<lambda>e. set e \<subseteq> A"])
    show "set (currentExpression initialState) \<subseteq> A"
      by (simp add: initialState_def)
    show "set [] \<subseteq> A"
      by simp
    show "\<And>e. set e \<subseteq> A \<Longrightarrow> set (butlast e) \<subseteq> A"
      by (auto dest: in_set_butlastD)
    show "\<And>e c. set e \<subseteq> A \<Longrightarrow> isDigit c \<or> c \<in> set ''+-*/(.'' \<Longrightarrow> set (e @ [c]) \<subseteq> A"
      using sym by simp
    show "\<And>e. set e \<subseteq> A \<Longrightarrow> countChar (CHR '')'') e < countChar (CHR ''('') e
        \<Longrightarrow> set (e @ '')'') \<subseteq> A"
      using cl by simp
    show "\<And>v. isFinite v \<Longrightarrow> set (toString v) \<subseteq> A"
      using num by (simp add: toString_chars)
  qed
  then show ?thesis
    unfolding A_def .
qed

theorem expression_alphabet_with_exponent_witness:
  "list_all isToken [''1'', ''/'', ''1'', ''0'', ''0'', ''0'', ''0'', ''0'', ''0'', ''0'', ''equal'']
   \<and> set (currentExpression
        (handleInputs [''1'', ''/'', ''1'', ''0'', ''0'', ''0'', ''0'', ''0'', ''0'', ''0'', ''equal'']
           initialState))
     \<subseteq> set ''0123456789+-*/().e''"
proof -
  have h: "list_all isToken
      [''1'', ''/'', ''1'', ''0'', ''0'', ''0'', ''0'', ''0'', ''0'', ''0'', ''equal'']"
    by code_simp
  show ?thesis
    using h expression_alphabet_with_exponent [OF h] by (rule conjI)
qed

text \<open>
  Claim C5 as stated fails. The inputs \<open>1\<close>, twenty-one times \<open>0\<close>, and \<open>equal\<close> evaluate
  the literal \<open>1000000000000000000000\<close> to the Number \<open>10^21 = 476837158203125 * 2^21\<close>,
  whose string is \<open>1e+21\<close>; the expression then contains the letter \<open>e\<close>.
\<close>

theorem result_with_exponent_leaves_alphabet:
  "list_all isToken (''1'' # replicate 21 ''0'' @ [''equal''])
   \<and> handleInputs (''1'' # replicate 21 ''0'' @ [''equal'']) initialState
     = \<lparr>currentExpression = ''1e+21'', lastResult = Some (Finite False 476837158203125 21)\<rparr>
   \<and> \<not> set ''1e+21'' \<subseteq> set ''0123456789+-*/().''"
  by code_simp

end
